theory Spec2Isabelle
  imports Main
begin

section \<open>The data model of \<open>src/mutex.ts\<close>\<close>

text \<open>
  A JavaScript symbol is a value whose only observable property is its identity: every
  call of \<open>Symbol(...)\<close> returns a symbol different from all symbols made before. Symbols
  are modelled as natural numbers handed out by a counter, the \<open>symbols\<close> field of the
  heap below: the n-th call of \<open>Symbol\<close> returns \<open>n\<close>.
\<close>

type_synonym symbol = nat

text \<open>
  \<open>MutexInternal<T>\<close>: the object stored in \<open>mutexRef.current\<close>. The field \<open>val\<close> is the
  source's \<open>value\<close> (a reserved word here); \<open>borrow\<close> is the property keyed by the hidden
  symbol \<open>borrow\<close>, of type \<open>symbol | null\<close>.
\<close>

record 'a MutexInternal =
  val :: 'a
  borrow :: "symbol option"

text \<open>
  \<open>MutexResource<T>\<close>: the frozen object returned by \<open>createMutexResource\<close>. Its methods
  are closures over the constant \<open>token\<close> and over \<open>mutexRef\<close>; the only datum of its own
  is the token, stored under the hidden key. The methods are the functions \<open>isReleased\<close>,
  \<open>release\<close>, \<open>get\<close> and \<open>set_value\<close> below, which take the handle as first argument.
\<close>

record MutexResource =
  token :: symbol

text \<open>The two exception classes of \<open>src/error.ts\<close>.\<close>

datatype error = MutexLockedError | MutexAccessRevokedError

text \<open>
  The part of the JavaScript heap that the code reads and writes: the object held by
  \<open>mutexRef.current\<close> and the number of symbols created so far. Every operation takes
  the heap and returns its outcome together with the heap it leaves behind; a
  \<open>throw\<close> is the outcome \<open>Inl e\<close>, paired with the heap as it was when the exception was
  thrown.
\<close>

record 'a heap =
  mutexRef :: "'a MutexInternal"
  symbols :: nat

section \<open>The access handle: \<open>createMutexResource\<close>\<close>

text \<open>\<open>const isReleased = () => token !== mutexRef.current[borrow]\<close>\<close>

definition isReleased :: "MutexResource \<Rightarrow> 'a heap \<Rightarrow> bool" where
  "isReleased h w = (Some (token h) \<noteq> borrow (mutexRef w))"

text \<open>
  \<open>createMutexResource\<close> draws a new symbol and builds the handle around it. It does
  not touch \<open>mutexRef.current\<close>.
\<close>

definition createMutexResource :: "'a heap \<Rightarrow> MutexResource \<times> 'a heap" where
  "createMutexResource w = (\<lparr>token = symbols w\<rparr>, w\<lparr>symbols := Suc (symbols w)\<rparr>)"

definition release :: "MutexResource \<Rightarrow> 'a heap \<Rightarrow> (error + unit) \<times> 'a heap" where
  "release h w =
     (if isReleased h w then (Inl MutexAccessRevokedError, w)
      else (Inr (), w\<lparr>mutexRef := (mutexRef w)\<lparr>borrow := None\<rparr>\<rparr>))"

definition get :: "MutexResource \<Rightarrow> 'a heap \<Rightarrow> (error + 'a) \<times> 'a heap" where
  "get h w =
     (if isReleased h w then (Inl MutexAccessRevokedError, w)
      else (Inr (val (mutexRef w)), w))"

definition set_value :: "MutexResource \<Rightarrow> 'a \<Rightarrow> 'a heap \<Rightarrow> (error + unit) \<times> 'a heap" where
  "set_value h v w =
     (if isReleased h w then (Inl MutexAccessRevokedError, w)
      else (Inr (), w\<lparr>mutexRef := (mutexRef w)\<lparr>val := v\<rparr>\<rparr>))"

section \<open>The guard: \<open>useMutex\<close>\<close>

text \<open>
  The two overloads of \<open>useMutex\<close>: an initial value, or an initializer together with the
  one-element tuple of its parameter.
\<close>

datatype ('a, 'p) useMutex_args = InitialValue 'a | Initializer "'p \<Rightarrow> 'a" 'p

text \<open>
  The body of \<open>useMutex\<close> up to the \<open>return\<close>: the argument \<open>cur\<close> is
  \<open>mutexRef.current\<close> as \<open>useRef\<close> hands it over (\<open>None\<close> for \<open>null\<close>, on the first render), the
  result is \<open>mutexRef.current\<close> afterwards.
\<close>

definition useMutex :: "'a MutexInternal option \<Rightarrow> ('a, 'p) useMutex_args \<Rightarrow> 'a MutexInternal" where
  "useMutex cur args =
     (case cur of
        None \<Rightarrow> \<lparr>val = (case args of Initializer init p \<Rightarrow> init p | InitialValue init \<Rightarrow> init),
                 borrow = None\<rparr>
      | Some m \<Rightarrow> m)"

text \<open>\<open>isAvailable: () => mutexRef.current![borrow] === null\<close>\<close>

definition isAvailable :: "'a heap \<Rightarrow> bool" where
  "isAvailable w = (borrow (mutexRef w) = None)"

definition acquire :: "'a heap \<Rightarrow> (error + MutexResource) \<times> 'a heap" where
  "acquire w =
     (if borrow (mutexRef w) \<noteq> None then (Inl MutexLockedError, w)
      else (case createMutexResource w of
              (resourceView, w') \<Rightarrow>
                (Inr resourceView, w'\<lparr>mutexRef := (mutexRef w')\<lparr>borrow := Some (token resourceView)\<rparr>\<rparr>)))"

section \<open>Sequences of operations\<close>

text \<open>
  What a component can do with one guard: render again (which calls \<open>useMutex\<close> with the
  reference already filled), probe, acquire, and call a method of a handle that an
  earlier \<open>acquire\<close> returned. A handle is named by its position in the list of handles
  returned so far; handles cannot be made in any other way, since \<open>createMutexResource\<close>
  is not exported.
\<close>

datatype ('a, 'p) op =
    OpRender "('a, 'p) useMutex_args"
  | OpIsAvailable
  | OpAcquire
  | OpIsReleased nat
  | OpRelease nat
  | OpGet nat
  | OpSet nat 'a

record 'a client =
  heap :: "'a heap"
  handles :: "MutexResource list"

text \<open>
  One operation. An exception is caught by the caller, who carries on with the heap
  the failed call left; an operation on a handle the caller does not have cannot be
  written and is skipped.
\<close>

fun step :: "('a, 'p) op \<Rightarrow> 'a client \<Rightarrow> 'a client" where
  "step (OpRender args) c =
     c\<lparr>heap := (heap c)\<lparr>mutexRef := useMutex (Some (mutexRef (heap c))) args\<rparr>\<rparr>"
| "step OpIsAvailable c = c"
| "step OpAcquire c =
     (case acquire (heap c) of
        (Inl e, w) \<Rightarrow> c\<lparr>heap := w\<rparr>
      | (Inr h, w) \<Rightarrow> c\<lparr>heap := w, handles := handles c @ [h]\<rparr>)"
| "step (OpIsReleased i) c = c"
| "step (OpRelease i) c =
     (if i < length (handles c) then c\<lparr>heap := snd (release (handles c ! i) (heap c))\<rparr> else c)"
| "step (OpGet i) c =
     (if i < length (handles c) then c\<lparr>heap := snd (get (handles c ! i) (heap c))\<rparr> else c)"
| "step (OpSet i v) c =
     (if i < length (handles c) then c\<lparr>heap := snd (set_value (handles c ! i) v (heap c))\<rparr> else c)"

fun run :: "('a, 'p) op list \<Rightarrow> 'a client \<Rightarrow> 'a client" where
  "run [] c = c"
| "run (x # xs) c = run xs (step x c)"

text \<open>
  The first render: \<open>useRef(null)\<close> gives an empty reference, \<open>useMutex\<close> fills it, and no
  handle exists yet. \<open>n\<close> is the number of symbols the program has created before.
\<close>

definition mount :: "nat \<Rightarrow> ('a, 'p) useMutex_args \<Rightarrow> 'a client" where
  "mount n args = \<lparr>heap = \<lparr>mutexRef = useMutex None args, symbols = n\<rparr>, handles = []\<rparr>"

section \<open>The invariant of reachable states\<close>

text \<open>
  Every handle the caller holds carries a symbol that has been drawn already, the
  holder (when there is one) is the token of one of these handles, and no two handles
  carry the same token.
\<close>

definition minted :: "'a client \<Rightarrow> bool" where
  "minted c =
     ((\<forall>h \<in> set (handles c). token h < symbols (heap c))
      \<and> (case borrow (mutexRef (heap c)) of None \<Rightarrow> True | Some t \<Rightarrow> t \<in> token ` set (handles c))
      \<and> distinct (map token (handles c)))"

section \<open>Facts about single operations\<close>

lemma free_heap_is_mounted:
  "isAvailable w \<Longrightarrow> w = heap (mount (symbols w) (InitialValue (val (mutexRef w))))"
  by (cases w, cases "mutexRef w") (simp add: isAvailable_def mount_def useMutex_def)

lemma useMutex_filled [simp]: "useMutex (Some m) args = m"
  by (simp add: useMutex_def)

lemma step_handles_prefix: "\<exists>hs. handles (step x c) = handles c @ hs"
  by (cases x) (auto simp: acquire_def createMutexResource_def)

lemma step_symbols_mono: "symbols (heap c) \<le> symbols (heap (step x c))"
  by (cases x)
     (auto simp: acquire_def createMutexResource_def release_def get_def set_value_def)

lemma step_keeps_revoked:
  assumes "token h < symbols (heap c)" and "isReleased h (heap c)"
  shows "isReleased h (heap (step x c))"
  using assms
  by (cases x)
     (auto simp: isReleased_def acquire_def createMutexResource_def release_def get_def
        set_value_def)

lemma run_keeps_revoked:
  "token h < symbols (heap c) \<Longrightarrow> isReleased h (heap c) \<Longrightarrow> isReleased h (heap (run xs c))"
proof (induction xs arbitrary: c)
  case Nil
  then show ?case by simp
next
  case (Cons x xs)
  have "token h < symbols (heap (step x c))"
    using Cons.prems(1) step_symbols_mono [of c x] by simp
  moreover have "isReleased h (heap (step x c))"
    using Cons.prems by (rule step_keeps_revoked)
  ultimately show ?case
    using Cons.IH by simp
qed

section \<open>The invariant is kept\<close>

lemma minted_mount: "minted (mount n args)"
  by (simp add: minted_def mount_def useMutex_def)

lemma minted_step: "minted c \<Longrightarrow> minted (step x c)"
  by (cases x)
     (auto simp: minted_def acquire_def createMutexResource_def release_def get_def
        set_value_def less_Suc_eq split: option.splits)

lemma minted_run: "minted c \<Longrightarrow> minted (run xs c)"
  by (induction xs arbitrary: c) (simp_all add: minted_step)

lemma minted_reachable: "minted (run xs (mount n args))"
  by (rule minted_run) (rule minted_mount)

lemma minted_token_drawn: "minted c \<Longrightarrow> h \<in> set (handles c) \<Longrightarrow> token h < symbols (heap c)"
  by (simp add: minted_def)

lemma run_handles_grow: "set (handles c) \<subseteq> set (handles (run xs c))"
proof (induction xs arbitrary: c)
  case Nil
  show ?case by simp
next
  case (Cons x xs)
  obtain hs where "handles (step x c) = handles c @ hs"
    using step_handles_prefix [of x c] by blast
  then have "set (handles c) \<subseteq> set (handles (step x c))"
    by simp
  with Cons.IH [of "step x c"] show ?case
    by simp
qed

text \<open>
  While a handle is live, only a \<open>release\<close> or a \<open>set\<close> through that handle changes
  anything: \<open>acquire\<close> throws, every other handle is released, so its methods throw,
  and the probes and a new render leave the heap as it is.
\<close>

lemma held_step:
  assumes "minted c" and "i < length (handles c)"
    and "borrow (mutexRef (heap c)) = Some (token (handles c ! i))"
    and "x \<noteq> OpRelease i" and "\<forall>u. x \<noteq> OpSet i u"
  shows "heap (step x c) = heap c \<and> handles (step x c) = handles c"
proof -
  have other: "isReleased (handles c ! j) (heap c)" if "j < length (handles c)" and "j \<noteq> i" for j
  proof -
    have "distinct (map token (handles c))"
      using assms(1) by (simp add: minted_def)
    then have "map token (handles c) ! j \<noteq> map token (handles c) ! i"
      using that assms(2) nth_eq_iff_index_eq [of "map token (handles c)" j i] by simp
    then show ?thesis
      using that assms(2,3) by (simp add: isReleased_def)
  qed
  show ?thesis
  proof (cases x)
    case (OpRender args)
    then show ?thesis by simp
  next
    case OpAcquire
    then show ?thesis using assms(3) by (simp add: acquire_def)
  next
    case (OpRelease j)
    then show ?thesis using assms(4) other [of j] by (simp add: release_def)
  next
    case (OpGet j)
    then show ?thesis by (simp add: get_def)
  next
    case (OpSet j u)
    then show ?thesis using assms(5) other [of j] by (simp add: set_value_def)
  qed simp_all
qed

lemma held_run:
  assumes "minted c" and "i < length (handles c)"
    and "borrow (mutexRef (heap c)) = Some (token (handles c ! i))"
    and "\<forall>x \<in> set xs. x \<noteq> OpRelease i \<and> (\<forall>u. x \<noteq> OpSet i u)"
  shows "run xs c = c"
  using assms
proof (induction xs)
  case Nil
  show ?case by simp
next
  case (Cons x xs)
  have "heap (step x c) = heap c \<and> handles (step x c) = handles c"
    using Cons.prems by (intro held_step) auto
  then have "step x c = c"
    by (cases c, cases "step x c") simp
  with Cons show ?case by simp
qed

text \<open>
  So a value written through the live handle is still what \<open>get\<close> returns after any
  operations that neither release the handle nor write through it again.
\<close>

lemma set_get_interleaved:
  fixes c :: "'a client"
  assumes "minted c" and "i < length (handles c)"
    and "\<not> isReleased (handles c ! i) (heap c)"
    and "\<forall>x \<in> set xs. x \<noteq> OpRelease i \<and> (\<forall>u. x \<noteq> OpSet i u)"
  shows "get (handles c ! i) (heap (run xs (step (OpSet i v) c)))
         = (Inr v, heap (run xs (step (OpSet i v) c)))"
proof -
  define c' where "c' = step (OpSet i v :: ('a, 'b) op) c"
  have hs: "handles c' = handles c"
    by (simp add: c'_def)
  have holder: "borrow (mutexRef (heap c')) = Some (token (handles c' ! i))"
    using assms(2,3) by (simp add: c'_def set_value_def isReleased_def)
  have written: "val (mutexRef (heap c')) = v"
    using assms(2,3) by (simp add: c'_def set_value_def)
  have "minted c'"
    unfolding c'_def using assms(1) by (rule minted_step)
  then have "run xs c' = c'"
    using assms(2,4) hs holder by (intro held_run) simp_all
  moreover have "get (handles c ! i) (heap c') = (Inr v, heap c')"
    using holder written hs by (simp add: get_def isReleased_def)
  ultimately show ?thesis
    by (simp add: c'_def)
qed

text \<open>The definitions a concrete run is evaluated with.\<close>

lemmas op_defs = mount_def useMutex_def acquire_def createMutexResource_def release_def get_def
  set_value_def isAvailable_def isReleased_def

section \<open>Availability and liveness\<close>

text \<open>
  C1. In every state reached from the first render by any sequence of operations,
  \<open>isAvailable()\<close> is true exactly when every handle that \<open>acquire\<close> has returned is
  released, that is, when no handle is live.
\<close>

theorem available_iff_no_live_handle:
  "isAvailable (heap (run xs (mount n args)))
   \<longleftrightarrow> (\<forall>h \<in> set (handles (run xs (mount n args))). isReleased h (heap (run xs (mount n args))))"
proof
  assume "isAvailable (heap (run xs (mount n args)))"
  then show "\<forall>h \<in> set (handles (run xs (mount n args))). isReleased h (heap (run xs (mount n args)))"
    by (simp add: isAvailable_def isReleased_def)
next
  assume all: "\<forall>h \<in> set (handles (run xs (mount n args))). isReleased h (heap (run xs (mount n args)))"
  show "isAvailable (heap (run xs (mount n args)))"
  proof (cases "borrow (mutexRef (heap (run xs (mount n args))))")
    case None
    then show ?thesis by (simp add: isAvailable_def)
  next
    case (Some t)
    with minted_reachable [of xs n args]
    obtain h where "h \<in> set (handles (run xs (mount n args)))" and "token h = t"
      by (auto simp: minted_def)
    with all Some show ?thesis
      by (auto simp: isReleased_def)
  qed
qed

theorem available_iff_no_live_handle_witness:
  "isAvailable (heap (run [OpAcquire, OpSet 0 42, OpRelease 0 :: (int, unit) op] (mount 0 (InitialValue 0 :: (int, unit) useMutex_args))))
   \<and> handles (run [OpAcquire, OpSet 0 42, OpRelease 0 :: (int, unit) op] (mount 0 (InitialValue 0 :: (int, unit) useMutex_args))) = [\<lparr>token = 0\<rparr>]
   \<and> isReleased \<lparr>token = 0\<rparr> (heap (run [OpAcquire, OpSet 0 42, OpRelease 0 :: (int, unit) op] (mount 0 (InitialValue 0 :: (int, unit) useMutex_args))))
   \<and> \<not> isAvailable (heap (run [OpAcquire, OpSet 0 42 :: (int, unit) op] (mount 0 (InitialValue 0 :: (int, unit) useMutex_args))))
   \<and> handles (run [OpAcquire, OpSet 0 42 :: (int, unit) op] (mount 0 (InitialValue 0 :: (int, unit) useMutex_args))) = [\<lparr>token = 0\<rparr>]
   \<and> \<not> isReleased \<lparr>token = 0\<rparr> (heap (run [OpAcquire, OpSet 0 42 :: (int, unit) op] (mount 0 (InitialValue 0 :: (int, unit) useMutex_args))))"
proof -
  have free: "isAvailable (heap (run [OpAcquire, OpSet 0 42, OpRelease 0 :: (int, unit) op] (mount 0 (InitialValue 0 :: (int, unit) useMutex_args))))"
    by (simp add: op_defs)
  have hs: "handles (run [OpAcquire, OpSet 0 42, OpRelease 0 :: (int, unit) op] (mount 0 (InitialValue 0 :: (int, unit) useMutex_args))) = [\<lparr>token = 0\<rparr>]"
    by (simp add: op_defs)
  have held: "\<not> isAvailable (heap (run [OpAcquire, OpSet 0 42 :: (int, unit) op] (mount 0 (InitialValue 0 :: (int, unit) useMutex_args))))"
    by (simp add: op_defs)
  have hs2: "handles (run [OpAcquire, OpSet 0 42 :: (int, unit) op] (mount 0 (InitialValue 0 :: (int, unit) useMutex_args))) = [\<lparr>token = 0\<rparr>]"
    by (simp add: op_defs)
  have "isReleased \<lparr>token = 0\<rparr> (heap (run [OpAcquire, OpSet 0 42, OpRelease 0 :: (int, unit) op] (mount 0 (InitialValue 0 :: (int, unit) useMutex_args))))"
    using free hs
      available_iff_no_live_handle [of "[OpAcquire, OpSet 0 42, OpRelease 0 :: (int, unit) op]" 0
        "InitialValue 0 :: (int, unit) useMutex_args"]
    by simp
  moreover have "\<not> isReleased \<lparr>token = 0\<rparr> (heap (run [OpAcquire, OpSet 0 42 :: (int, unit) op] (mount 0 (InitialValue 0 :: (int, unit) useMutex_args))))"
    using held hs2
      available_iff_no_live_handle [of "[OpAcquire, OpSet 0 42 :: (int, unit) op]" 0
        "InitialValue 0 :: (int, unit) useMutex_args"]
    by simp
  ultimately show ?thesis
    using free hs held hs2 by simp
qed

section \<open>\<open>acquire\<close>\<close>

text \<open>
  C2. When the holder is not null, \<open>acquire\<close> throws \<open>MutexLockedError\<close> and the heap is
  the one it was called in: value, holder and the symbol counter are unchanged, so no
  handle was made and the guard is still held.
\<close>

theorem acquire_locked:
  assumes "borrow (mutexRef w) \<noteq> None"
  shows "acquire w = (Inl MutexLockedError, w) \<and> \<not> isAvailable (snd (acquire w))"
  using assms by (simp add: acquire_def isAvailable_def)

theorem acquire_locked_witness:
  "borrow (mutexRef \<lparr>mutexRef = \<lparr>val = 7::int, borrow = Some 3\<rparr>, symbols = 4\<rparr>) \<noteq> None
   \<and> acquire \<lparr>mutexRef = \<lparr>val = 7::int, borrow = Some 3\<rparr>, symbols = 4\<rparr>
       = (Inl MutexLockedError, \<lparr>mutexRef = \<lparr>val = 7, borrow = Some 3\<rparr>, symbols = 4\<rparr>)"
  using acquire_locked [of "\<lparr>mutexRef = \<lparr>val = 7::int, borrow = Some 3\<rparr>, symbols = 4\<rparr>"]
  by simp

text \<open>
  C3. In every reachable state whose holder is null, \<open>acquire\<close> returns a handle whose
  token differs from the token of every handle returned before; the holder becomes
  that token and the value is kept; right after, \<open>isAvailable()\<close> and the new handle's
  \<open>isReleased()\<close> are both false. By \<open>free_heap_is_mounted\<close> every heap whose holder is null
  is the heap of a reachable state.
\<close>

theorem acquire_free:
  assumes "c = run xs (mount n args)" and "isAvailable (heap c)"
  shows "\<exists>h w'. acquire (heap c) = (Inr h, w')
           \<and> (\<forall>h' \<in> set (handles c). token h' \<noteq> token h)
           \<and> borrow (mutexRef w') = Some (token h)
           \<and> val (mutexRef w') = val (mutexRef (heap c))
           \<and> \<not> isAvailable w'
           \<and> \<not> isReleased h w'"
proof -
  have "\<forall>h' \<in> set (handles c). token h' < symbols (heap c)"
    using minted_reachable [of xs n args] assms(1) by (simp add: minted_def)
  then have "\<forall>h' \<in> set (handles c). token h' \<noteq> symbols (heap c)"
    by auto
  with assms(2) show ?thesis
    by (simp add: acquire_def createMutexResource_def isAvailable_def isReleased_def)
qed

theorem acquire_free_witness:
  "isAvailable (heap (run [OpAcquire, OpRelease 0 :: (int, unit) op]
                       (mount 5 (InitialValue 0 :: (int, unit) useMutex_args))))
   \<and> handles (run [OpAcquire, OpRelease 0 :: (int, unit) op]
                (mount 5 (InitialValue 0 :: (int, unit) useMutex_args))) = [\<lparr>token = 5\<rparr>]
   \<and> (\<exists>h w'. acquire (heap (run [OpAcquire, OpRelease 0 :: (int, unit) op]
                               (mount 5 (InitialValue 0 :: (int, unit) useMutex_args)))) = (Inr h, w')
           \<and> token h \<noteq> 5
           \<and> borrow (mutexRef w') = Some (token h)
           \<and> \<not> isAvailable w'
           \<and> \<not> isReleased h w')"
proof -
  have free: "isAvailable (heap (run [OpAcquire, OpRelease 0 :: (int, unit) op]
                       (mount 5 (InitialValue 0 :: (int, unit) useMutex_args))))"
    by (simp add: op_defs)
  have hs: "handles (run [OpAcquire, OpRelease 0 :: (int, unit) op]
                (mount 5 (InitialValue 0 :: (int, unit) useMutex_args))) = [\<lparr>token = 5\<rparr>]"
    by (simp add: op_defs)
  from acquire_free [OF refl free] hs free show ?thesis
    by fastforce
qed

section \<open>\<open>release\<close>\<close>

text \<open>
  C4. In a reachable state, \<open>release\<close> on a live handle returns normally and sets the
  holder to null, keeping the value; \<open>isAvailable()\<close> is then true and the handle's
  \<open>isReleased()\<close> is true, and stays true whatever is done afterwards. A second \<open>release\<close>
  on the handle, at once or at any later time, throws \<open>MutexAccessRevokedError\<close> and
  leaves the heap as it found it.
\<close>

theorem release_once:
  fixes c :: "'a client"
  assumes "c = run xs (mount n args)" and "h \<in> set (handles c)" and "\<not> isReleased h (heap c)"
  shows "\<exists>w'. release h (heap c) = (Inr (), w')
           \<and> borrow (mutexRef w') = None
           \<and> val (mutexRef w') = val (mutexRef (heap c))
           \<and> isAvailable w'
           \<and> isReleased h w'
           \<and> release h w' = (Inl MutexAccessRevokedError, w')
           \<and> (\<forall>ys :: ('a, 'q) op list.
                 isReleased h (heap (run ys (c\<lparr>heap := w'\<rparr>)))
                 \<and> release h (heap (run ys (c\<lparr>heap := w'\<rparr>)))
                     = (Inl MutexAccessRevokedError, heap (run ys (c\<lparr>heap := w'\<rparr>))))"
proof -
  define w' where "w' = (heap c)\<lparr>mutexRef := (mutexRef (heap c))\<lparr>borrow := None\<rparr>\<rparr>"
  have minted: "token h < symbols (heap c)"
    using minted_reachable [of xs n args] assms(1,2) by (simp add: minted_token_drawn)
  have rel: "release h (heap c) = (Inr (), w')"
    using assms(3) by (simp add: release_def w'_def)
  have revoked: "isReleased h w'"
    by (simp add: isReleased_def w'_def)
  have later: "isReleased h (heap (run ys (c\<lparr>heap := w'\<rparr>)))" for ys :: "('a, 'q) op list"
    using run_keeps_revoked [of h "c\<lparr>heap := w'\<rparr>" ys] minted revoked
    by (simp add: w'_def)
  have "borrow (mutexRef w') = None" "val (mutexRef w') = val (mutexRef (heap c))" "isAvailable w'"
    by (simp_all add: w'_def isAvailable_def)
  with rel revoked later show ?thesis
    by (simp add: release_def)
qed

theorem release_once_witness:
  "\<lparr>token = 0\<rparr> \<in> set (handles (run [OpAcquire, OpSet 0 42 :: (int, unit) op]
                                  (mount 0 (InitialValue 0 :: (int, unit) useMutex_args))))
   \<and> \<not> isReleased \<lparr>token = 0\<rparr> (heap (run [OpAcquire, OpSet 0 42 :: (int, unit) op]
                                       (mount 0 (InitialValue 0 :: (int, unit) useMutex_args))))
   \<and> (\<exists>w'. release \<lparr>token = 0\<rparr> (heap (run [OpAcquire, OpSet 0 42 :: (int, unit) op]
                                        (mount 0 (InitialValue 0 :: (int, unit) useMutex_args))))
              = (Inr (), w')
           \<and> w' = \<lparr>mutexRef = \<lparr>val = 42, borrow = None\<rparr>, symbols = 1\<rparr>
           \<and> isAvailable w'
           \<and> isReleased \<lparr>token = 0\<rparr> w'
           \<and> release \<lparr>token = 0\<rparr> w' = (Inl MutexAccessRevokedError, w'))"
proof -
  have mem: "\<lparr>token = 0\<rparr> \<in> set (handles (run [OpAcquire, OpSet 0 42 :: (int, unit) op]
                                  (mount 0 (InitialValue 0 :: (int, unit) useMutex_args))))"
    by (simp add: op_defs)
  have live: "\<not> isReleased \<lparr>token = 0\<rparr> (heap (run [OpAcquire, OpSet 0 42 :: (int, unit) op]
                                       (mount 0 (InitialValue 0 :: (int, unit) useMutex_args))))"
    by (simp add: op_defs)
  have w: "snd (release \<lparr>token = 0\<rparr> (heap (run [OpAcquire, OpSet 0 42 :: (int, unit) op]
                                        (mount 0 (InitialValue 0 :: (int, unit) useMutex_args)))))
           = \<lparr>mutexRef = \<lparr>val = 42, borrow = None\<rparr>, symbols = 1\<rparr>"
    by (simp add: op_defs)
  from release_once [OF refl mem live] mem live w show ?thesis
    by fastforce
qed

section \<open>Revocation is final\<close>

text \<open>
  C5. A handle returned in a reachable state whose \<open>isReleased()\<close> is true has
  \<open>isReleased()\<close> true after every further sequence of operations, further
  \<open>acquire\<close>/\<open>release\<close> cycles included: the caller still has the handle, and the
  tokens of all handles returned up to then are pairwise different, so no later holder
  is this handle's token.
\<close>

theorem revocation_irreversible:
  fixes c :: "'a client"
  assumes "c = run xs (mount n args)" and "h \<in> set (handles c)" and "isReleased h (heap c)"
  shows "isReleased h (heap (run ys c))
         \<and> h \<in> set (handles (run ys c))
         \<and> distinct (map token (handles (run ys c)))"
proof -
  have minted: "token h < symbols (heap c)"
    using minted_reachable [of xs n args] assms(1,2) by (simp add: minted_token_drawn)
  have "isReleased h (heap (run ys c))"
    using minted assms(3) by (rule run_keeps_revoked)
  moreover have "set (handles c) \<subseteq> set (handles (run ys c))"
    by (rule run_handles_grow)
  moreover have "minted (run ys c)"
    using minted_reachable [of xs n args] assms(1) by (simp add: minted_run)
  then have "distinct (map token (handles (run ys c)))"
    by (simp add: minted_def)
  ultimately show ?thesis
    using assms(2) by blast
qed

theorem revocation_irreversible_witness:
  "\<lparr>token = 0\<rparr> \<in> set (handles (run [OpAcquire, OpRelease 0 :: (int, unit) op]
                                  (mount 0 (InitialValue 0 :: (int, unit) useMutex_args))))
   \<and> isReleased \<lparr>token = 0\<rparr> (heap (run [OpAcquire, OpRelease 0 :: (int, unit) op]
                                     (mount 0 (InitialValue 0 :: (int, unit) useMutex_args))))
   \<and> isReleased \<lparr>token = 0\<rparr>
        (heap (run [OpAcquire, OpSet 1 7, OpRelease 1, OpRender (InitialValue 9), OpAcquire]
                (run [OpAcquire, OpRelease 0 :: (int, unit) op]
                   (mount 0 (InitialValue 0 :: (int, unit) useMutex_args)))))
   \<and> map token (handles (run [OpAcquire, OpSet 1 7, OpRelease 1, OpRender (InitialValue 9), OpAcquire]
                (run [OpAcquire, OpRelease 0 :: (int, unit) op]
                   (mount 0 (InitialValue 0 :: (int, unit) useMutex_args))))) = [0, 1, 2]
   \<and> mutexRef (heap (run [OpAcquire, OpSet 1 7, OpRelease 1, OpRender (InitialValue 9), OpAcquire]
                (run [OpAcquire, OpRelease 0 :: (int, unit) op]
                   (mount 0 (InitialValue 0 :: (int, unit) useMutex_args)))))
       = \<lparr>val = 7, borrow = Some 2\<rparr>"
proof -
  have mem: "\<lparr>token = 0\<rparr> \<in> set (handles (run [OpAcquire, OpRelease 0 :: (int, unit) op]
                                  (mount 0 (InitialValue 0 :: (int, unit) useMutex_args))))"
    by (simp add: op_defs)
  have rev: "isReleased \<lparr>token = 0\<rparr> (heap (run [OpAcquire, OpRelease 0 :: (int, unit) op]
                                     (mount 0 (InitialValue 0 :: (int, unit) useMutex_args))))"
    by (simp add: op_defs)
  have hs: "map token (handles (run [OpAcquire, OpSet 1 7, OpRelease 1, OpRender (InitialValue 9), OpAcquire]
                (run [OpAcquire, OpRelease 0 :: (int, unit) op]
                   (mount 0 (InitialValue 0 :: (int, unit) useMutex_args))))) = [0, 1, 2]"
    by (simp add: op_defs)
  have m: "mutexRef (heap (run [OpAcquire, OpSet 1 7, OpRelease 1, OpRender (InitialValue 9), OpAcquire]
                (run [OpAcquire, OpRelease 0 :: (int, unit) op]
                   (mount 0 (InitialValue 0 :: (int, unit) useMutex_args)))))
       = \<lparr>val = 7, borrow = Some 2\<rparr>"
    by (simp add: op_defs)
  from revocation_irreversible [OF refl mem rev,
      of "[OpAcquire, OpSet 1 7, OpRelease 1, OpRender (InitialValue 9), OpAcquire]"]
    mem rev hs m
  show ?thesis by blast
qed

section \<open>\<open>get\<close> and \<open>set\<close>\<close>

text \<open>
  C6. On a handle whose \<open>isReleased()\<close> is true, \<open>get()\<close> and \<open>set(v)\<close>, for any \<open>v\<close>,
  throw \<open>MutexAccessRevokedError\<close> and leave the whole heap, the value included, as it
  was.
\<close>

theorem get_set_revoked:
  assumes "isReleased h w"
  shows "get h w = (Inl MutexAccessRevokedError, w)
         \<and> set_value h v w = (Inl MutexAccessRevokedError, w)"
  using assms by (simp add: get_def set_value_def)

theorem get_set_revoked_witness:
  "isReleased \<lparr>token = 0\<rparr> \<lparr>mutexRef = \<lparr>val = 42::int, borrow = Some 1\<rparr>, symbols = 2\<rparr>
   \<and> get \<lparr>token = 0\<rparr> \<lparr>mutexRef = \<lparr>val = 42::int, borrow = Some 1\<rparr>, symbols = 2\<rparr>
       = (Inl MutexAccessRevokedError, \<lparr>mutexRef = \<lparr>val = 42, borrow = Some 1\<rparr>, symbols = 2\<rparr>)
   \<and> set_value \<lparr>token = 0\<rparr> 5 \<lparr>mutexRef = \<lparr>val = 42::int, borrow = Some 1\<rparr>, symbols = 2\<rparr>
       = (Inl MutexAccessRevokedError, \<lparr>mutexRef = \<lparr>val = 42, borrow = Some 1\<rparr>, symbols = 2\<rparr>)"
proof -
  have rev: "isReleased \<lparr>token = 0\<rparr> \<lparr>mutexRef = \<lparr>val = 42::int, borrow = Some 1\<rparr>, symbols = 2\<rparr>"
    by (simp add: isReleased_def)
  from get_set_revoked [OF rev, of 5] rev show ?thesis
    by simp
qed

text \<open>
  C7. On a live handle, \<open>set(v)\<close> returns normally, the handle is still live, and a
  \<open>get()\<close> that follows returns \<open>v\<close>.
\<close>

theorem set_get_roundtrip:
  assumes "\<not> isReleased h w"
  shows "\<exists>w'. set_value h v w = (Inr (), w') \<and> \<not> isReleased h w' \<and> get h w' = (Inr v, w')"
  using assms by (simp add: set_value_def get_def isReleased_def)

theorem set_get_roundtrip_witness:
  "\<not> isReleased \<lparr>token = 1\<rparr> \<lparr>mutexRef = \<lparr>val = 0::int, borrow = Some 1\<rparr>, symbols = 2\<rparr>
   \<and> (\<exists>w'. set_value \<lparr>token = 1\<rparr> 42 \<lparr>mutexRef = \<lparr>val = 0::int, borrow = Some 1\<rparr>, symbols = 2\<rparr>
              = (Inr (), w')
           \<and> get \<lparr>token = 1\<rparr> w' = (Inr 42, w'))"
proof -
  have live: "\<not> isReleased \<lparr>token = 1\<rparr> \<lparr>mutexRef = \<lparr>val = 0::int, borrow = Some 1\<rparr>, symbols = 2\<rparr>"
    by (simp add: isReleased_def)
  from set_get_roundtrip [OF live, of 42] live show ?thesis
    by blast
qed

text \<open>
  C10. On a live handle, \<open>set(v)\<close> changes the field \<open>value\<close> and nothing else: the
  holder and the symbol counter are as before, so every handle is released after the
  call exactly when it was before. The handle stays live, and \<open>get\<close>, \<open>set\<close> and
  \<open>release\<close> through it return normally afterwards.
\<close>

theorem set_frame:
  assumes "\<not> isReleased h w"
  shows "\<exists>w'. set_value h v w = (Inr (), w')
           \<and> mutexRef w' = (mutexRef w)\<lparr>val := v\<rparr>
           \<and> symbols w' = symbols w
           \<and> borrow (mutexRef w') = borrow (mutexRef w)
           \<and> (\<forall>h'. isReleased h' w' = isReleased h' w)
           \<and> \<not> isReleased h w'
           \<and> fst (get h w') = Inr v
           \<and> (\<forall>u. fst (set_value h u w') = Inr ())
           \<and> fst (release h w') = Inr ()"
  using assms by (simp add: set_value_def get_def release_def isReleased_def)

theorem set_frame_witness:
  "\<not> isReleased \<lparr>token = 1\<rparr> \<lparr>mutexRef = \<lparr>val = 0::int, borrow = Some 1\<rparr>, symbols = 2\<rparr>
   \<and> (\<exists>w'. set_value \<lparr>token = 1\<rparr> 42 \<lparr>mutexRef = \<lparr>val = 0::int, borrow = Some 1\<rparr>, symbols = 2\<rparr>
              = (Inr (), w')
           \<and> w' = \<lparr>mutexRef = \<lparr>val = 42, borrow = Some 1\<rparr>, symbols = 2\<rparr>
           \<and> \<not> isReleased \<lparr>token = 1\<rparr> w'
           \<and> fst (get \<lparr>token = 1\<rparr> w') = Inr 42
           \<and> fst (release \<lparr>token = 1\<rparr> w') = Inr ())"
proof -
  have live: "\<not> isReleased \<lparr>token = 1\<rparr> \<lparr>mutexRef = \<lparr>val = 0::int, borrow = Some 1\<rparr>, symbols = 2\<rparr>"
    by (simp add: isReleased_def)
  have w: "snd (set_value \<lparr>token = 1\<rparr> 42 \<lparr>mutexRef = \<lparr>val = 0::int, borrow = Some 1\<rparr>, symbols = 2\<rparr>)
           = \<lparr>mutexRef = \<lparr>val = 42, borrow = Some 1\<rparr>, symbols = 2\<rparr>"
    by (simp add: set_value_def isReleased_def)
  from set_frame [OF live, of 42] live w show ?thesis
    by fastforce
qed

section \<open>Acquiring again\<close>

text \<open>
  C8. From a free guard, \<open>acquire\<close>, \<open>release\<close> on the handle obtained, and \<open>acquire\<close>
  again all return normally. The second handle's token differs from the first's; \<open>get\<close>
  (which returns the guard's value), \<open>set\<close> and \<open>release\<close> through the second handle
  return normally; the first handle is released, and remains so after any further
  operations, whichever handles the caller holds.
\<close>

theorem reentrancy:
  fixes w :: "'a heap"
  assumes "isAvailable w"
  shows "\<exists>h1 w1 w2 h2 w3.
           acquire w = (Inr h1, w1)
         \<and> release h1 w1 = (Inr (), w2)
         \<and> acquire w2 = (Inr h2, w3)
         \<and> token h2 \<noteq> token h1
         \<and> get h2 w3 = (Inr (val (mutexRef w)), w3)
         \<and> (\<forall>v. fst (set_value h2 v w3) = Inr ())
         \<and> fst (release h2 w3) = Inr ()
         \<and> isReleased h1 w3
         \<and> (\<forall>(ys :: ('a, 'q) op list) hs. isReleased h1 (heap (run ys \<lparr>heap = w3, handles = hs\<rparr>)))"
proof -
  define h1 where "h1 = \<lparr>token = symbols w\<rparr>"
  define w1 where "w1 = w\<lparr>symbols := Suc (symbols w), mutexRef := (mutexRef w)\<lparr>borrow := Some (symbols w)\<rparr>\<rparr>"
  define w2 where "w2 = w1\<lparr>mutexRef := (mutexRef w1)\<lparr>borrow := None\<rparr>\<rparr>"
  define h2 where "h2 = \<lparr>token = Suc (symbols w)\<rparr>"
  define w3 where "w3 = w2\<lparr>symbols := Suc (Suc (symbols w)), mutexRef := (mutexRef w2)\<lparr>borrow := Some (Suc (symbols w))\<rparr>\<rparr>"
  have a1: "acquire w = (Inr h1, w1)"
    using assms by (simp add: acquire_def createMutexResource_def isAvailable_def h1_def w1_def)
  have r1: "release h1 w1 = (Inr (), w2)"
    by (simp add: release_def isReleased_def h1_def w1_def w2_def)
  have a2: "acquire w2 = (Inr h2, w3)"
    by (simp add: acquire_def createMutexResource_def h2_def w1_def w2_def w3_def)
  have fresh: "token h2 \<noteq> token h1"
    by (simp add: h1_def h2_def)
  have g: "get h2 w3 = (Inr (val (mutexRef w)), w3)"
    by (simp add: get_def isReleased_def h2_def w1_def w2_def w3_def)
  have s: "fst (set_value h2 v w3) = Inr ()" for v
    by (simp add: set_value_def isReleased_def h2_def w3_def)
  have r2: "fst (release h2 w3) = Inr ()"
    by (simp add: release_def isReleased_def h2_def w3_def)
  have rev: "isReleased h1 w3"
    by (simp add: isReleased_def h1_def w3_def)
  have drawn: "token h1 < symbols w3"
    by (simp add: h1_def w3_def)
  have later: "isReleased h1 (heap (run ys \<lparr>heap = w3, handles = hs\<rparr>))"
    for ys :: "('a, 'q) op list" and hs
    using run_keeps_revoked [of h1 "\<lparr>heap = w3, handles = hs\<rparr>" ys] drawn rev by simp
  from a1 r1 a2 fresh g s r2 rev later show ?thesis
    by blast
qed

theorem reentrancy_witness:
  "isAvailable \<lparr>mutexRef = \<lparr>val = 3::int, borrow = None\<rparr>, symbols = 0\<rparr>
   \<and> (\<exists>h1 w1 w2 h2 w3.
           acquire \<lparr>mutexRef = \<lparr>val = 3::int, borrow = None\<rparr>, symbols = 0\<rparr> = (Inr h1, w1)
         \<and> release h1 w1 = (Inr (), w2)
         \<and> acquire w2 = (Inr h2, w3)
         \<and> token h2 \<noteq> token h1
         \<and> get h2 w3 = (Inr 3, w3)
         \<and> isReleased h1 w3)"
proof -
  have free: "isAvailable \<lparr>mutexRef = \<lparr>val = 3::int, borrow = None\<rparr>, symbols = 0\<rparr>"
    by (simp add: isAvailable_def)
  from reentrancy [OF free] obtain h1 w1 w2 h2 w3 where
    "acquire \<lparr>mutexRef = \<lparr>val = 3::int, borrow = None\<rparr>, symbols = 0\<rparr> = (Inr h1, w1)"
    "release h1 w1 = (Inr (), w2)" "acquire w2 = (Inr h2, w3)" "token h2 \<noteq> token h1"
    "get h2 w3 = (Inr (val (mutexRef \<lparr>mutexRef = \<lparr>val = 3::int, borrow = None\<rparr>, symbols = 0\<rparr>)), w3)"
    "isReleased h1 w3"
    by blast
  with free show ?thesis
    by simp
qed

text \<open>
  C9. The scenario: a guard made with initial value \<open>0\<close>; \<open>h1 = acquire()\<close> returns;
  \<open>h1.set(42)\<close> returns; a second \<open>acquire()\<close> throws \<open>MutexLockedError\<close>; \<open>h1.get()\<close>
  returns \<open>42\<close>; \<open>h1.release()\<close> returns; \<open>h1.get()\<close> throws
  \<open>MutexAccessRevokedError\<close>; \<open>h3 = acquire()\<close> returns and \<open>h3.get()\<close> returns \<open>42\<close>.
\<close>

theorem scenario:
  "\<exists>h1 w1 w2 w3 h3 w4.
       acquire \<lparr>mutexRef = useMutex None (InitialValue (0::int)), symbols = n\<rparr> = (Inr h1, w1)
     \<and> set_value h1 42 w1 = (Inr (), w2)
     \<and> acquire w2 = (Inl MutexLockedError, w2)
     \<and> get h1 w2 = (Inr 42, w2)
     \<and> release h1 w2 = (Inr (), w3)
     \<and> get h1 w3 = (Inl MutexAccessRevokedError, w3)
     \<and> acquire w3 = (Inr h3, w4)
     \<and> get h3 w4 = (Inr 42, w4)"
  by (simp add: op_defs)

end
